theory Spec2Isabelle
  imports Main
begin

section \<open>Data model (backend/api/models.py)\<close>

text \<open>
  Every Django model is a record of the columns the authorization core reads. A foreign
  key to a row that a function only compares or joins on is stored as the primary key
  of that row, as the database does; a table is the list of its rows.
\<close>

record organization =
  org_id :: nat
  org_name :: string
  slug :: string

record permission =
  perm_id :: nat
  perm_name :: string
  perm_category :: string
  perm_description :: string

record user_profile =
  profile_id :: nat
  role :: string
  profile_organization :: "organization option"

record role_permission =
  rp_role :: string
  rp_permission_id :: nat

record user_permission =
  up_user_profile_id :: nat
  up_permission_id :: nat
  up_granted :: bool

record database =
  permissions :: "permission list"
  role_permissions :: "role_permission list"
  user_permissions :: "user_permission list"
  organizations :: "organization list"

text \<open>
  \<open>django.contrib.auth\<close>: \<open>request.user\<close> is either the \<open>AnonymousUser\<close>, whose
  \<open>is_authenticated\<close> is \<open>False\<close> and which has no \<open>profile\<close> relation, or a
  \<open>User\<close> row, whose \<open>is_authenticated\<close> is always \<open>True\<close> and whose reverse
  one-to-one accessor \<open>profile\<close> may be missing (\<open>hasattr(user, 'profile')\<close> is then
  \<open>False\<close>).
\<close>

datatype user = AnonymousUser | User (user_id: nat) (username: string) (profile: "user_profile option")

fun is_authenticated :: "user \<Rightarrow> bool" where
  "is_authenticated AnonymousUser = False"
| "is_authenticated (User _ _ _) = True"

fun hasattr_profile :: "user \<Rightarrow> user_profile option" where
  "hasattr_profile AnonymousUser = None"
| "hasattr_profile (User _ _ p) = p"

text \<open>Django compares model instances by primary key; \<open>None == None\<close> holds in Python.\<close>

fun org_eq :: "organization option \<Rightarrow> organization option \<Rightarrow> bool" where
  "org_eq None None = True"
| "org_eq (Some a) (Some b) = (org_id a = org_id b)"
| "org_eq _ _ = False"

subsection \<open>UserProfile methods\<close>

definition is_superadmin :: "user_profile \<Rightarrow> bool" where
  "is_superadmin self = (role self = ''superadmin'')"

definition is_admin :: "user_profile \<Rightarrow> bool" where
  "is_admin self = (role self = ''admin'')"

definition is_manager :: "user_profile \<Rightarrow> bool" where
  "is_manager self = (role self = ''manager'')"

definition is_user :: "user_profile \<Rightarrow> bool" where
  "is_user self = (role self = ''user'')"

definition is_admin_or_above :: "user_profile \<Rightarrow> bool" where
  "is_admin_or_above self = (role self \<in> set [''admin'', ''superadmin'', ''manager''])"

text \<open>
  \<open>RolePermission.objects.filter(role=..., permission__name=...).exists()\<close>: the lookup
  \<open>permission__name\<close> joins each RolePermission row with the Permission row its foreign
  key points to.
\<close>

definition role_has_perm :: "database \<Rightarrow> string \<Rightarrow> string \<Rightarrow> bool" where
  "role_has_perm db r permission_name =
     list_ex (\<lambda>rp. rp_role rp = r \<and>
                list_ex (\<lambda>p. perm_id p = rp_permission_id rp \<and> perm_name p = permission_name)
                  (permissions db))
       (role_permissions db)"

text \<open>
  \<open>UserPermission.objects.filter(user_profile=self, permission__name=..., granted=True).exists()\<close>
\<close>

definition user_perm :: "database \<Rightarrow> user_profile \<Rightarrow> string \<Rightarrow> bool" where
  "user_perm db self permission_name =
     list_ex (\<lambda>up. up_user_profile_id up = profile_id self \<and>
                list_ex (\<lambda>p. perm_id p = up_permission_id up \<and> perm_name p = permission_name)
                  (permissions db) \<and>
                up_granted up = True)
       (user_permissions db)"

definition has_permission :: "database \<Rightarrow> user_profile \<Rightarrow> string \<Rightarrow> bool" where
  "has_permission db self permission_name =
     (if is_superadmin self then True
      else if role_has_perm db (role self) permission_name then True
      else user_perm db self permission_name)"

text \<open>
  \<open>get_permissions\<close>: the two \<open>Permission.objects.filter(...)\<close> queries select the
  Permission rows joined with a matching RolePermission (UserPermission) row and project
  the name. \<open>list(set(...))\<close> removes duplicates; the order of the resulting list is not
  determined by Python, \<open>remdups\<close> fixes one.
\<close>

definition role_perms :: "database \<Rightarrow> user_profile \<Rightarrow> string list" where
  "role_perms db self =
     map perm_name
       (filter (\<lambda>p. list_ex (\<lambda>rp. rp_permission_id rp = perm_id p \<and> rp_role rp = role self)
                      (role_permissions db))
          (permissions db))"

definition user_perms :: "database \<Rightarrow> user_profile \<Rightarrow> string list" where
  "user_perms db self =
     map perm_name
       (filter (\<lambda>p. list_ex (\<lambda>up. up_permission_id up = perm_id p \<and>
                                  up_user_profile_id up = profile_id self \<and>
                                  up_granted up = True)
                      (user_permissions db))
          (permissions db))"

definition get_permissions :: "database \<Rightarrow> user_profile \<Rightarrow> string list" where
  "get_permissions db self =
     (if is_superadmin self then map perm_name (permissions db)
      else remdups (role_perms db self @ user_perms db self))"

subsection \<open>The relations the tables denote\<close>

text \<open>
  RoleBinding: the (role, permission name) pairs of the RolePermission table.
  UserPermissionOverride: the (profile, permission name, granted) triples of the
  UserPermission table. The catalog: the names of the Permission table.
\<close>

definition RoleBinding :: "database \<Rightarrow> (string \<times> string) set" where
  "RoleBinding db =
     set (concat (map (\<lambda>rp. map (\<lambda>p. (rp_role rp, perm_name p))
                              (filter (\<lambda>p. perm_id p = rp_permission_id rp) (permissions db)))
                    (role_permissions db)))"

definition UserPermissionOverride :: "database \<Rightarrow> (nat \<times> string \<times> bool) set" where
  "UserPermissionOverride db =
     set (concat (map (\<lambda>up. map (\<lambda>p. (up_user_profile_id up, perm_name p, up_granted up))
                              (filter (\<lambda>p. perm_id p = up_permission_id up) (permissions db)))
                    (user_permissions db)))"

definition catalog :: "database \<Rightarrow> string set" where
  "catalog db = set (map perm_name (permissions db))"

section \<open>Responses and requests\<close>

text \<open>
  \<open>JsonResponse(body, status=...)\<close>: the body as its key/value pairs, and the status.
  A request carries the attributes the middleware read and attach (\<open>request.path\<close>,
  \<open>request.user\<close>, \<open>request.tenant\<close>, \<open>request.org_slug\<close>, \<open>request.user_role\<close>); an
  attribute that is absent reads as \<open>None\<close>, as \<open>getattr(request, ..., None)\<close> does.
\<close>

datatype response = JsonResponse (body: "(string \<times> string) list") (status: nat)

record request =
  req_path :: string
  req_user :: user
  req_tenant :: "organization option"
  req_org_slug :: "string option"
  req_user_role :: "string option"

section \<open>DRF permission classes (backend/api/permissions/role_permissions.py)\<close>

text \<open>
  The argument \<open>request_user\<close> is \<open>request.user\<close> of a DRF request, \<open>None\<close> when it is
  unset. A model instance is truthy. \<open>request.user.profile.role\<close> raises when the
  profile is missing; the \<open>except Exception\<close> branch is the \<open>None\<close> case.
\<close>

definition rp_IsAdminOrAbove_has_permission :: "user option \<Rightarrow> bool" where
  "rp_IsAdminOrAbove_has_permission request_user =
     (case request_user of
        None \<Rightarrow> False
      | Some u \<Rightarrow>
          if \<not> is_authenticated u then False
          else (case hasattr_profile u of
                  Some p \<Rightarrow> role p \<in> set [''admin'', ''superadmin'']
                | None \<Rightarrow> False))"

text \<open>
  The object handed to \<open>has_object_permission\<close>: a user (it has \<open>profile\<close> when the
  profile row exists, and never \<open>role\<close>), a profile-like object (it has \<open>role\<close>), or
  an object with neither attribute.
\<close>

datatype managed_object = UserObject user | ProfileObject user_profile | OtherObject

fun target_role_of :: "managed_object \<Rightarrow> string option" where
  "target_role_of (UserObject u) =
     (case hasattr_profile u of Some p \<Rightarrow> Some (role p) | None \<Rightarrow> None)"
| "target_role_of (ProfileObject p) = Some (role p)"
| "target_role_of OtherObject = None"

definition CanManageUsers_has_object_permission :: "user option \<Rightarrow> managed_object \<Rightarrow> bool" where
  "CanManageUsers_has_object_permission request_user obj =
     (case request_user of
        None \<Rightarrow> False
      | Some u \<Rightarrow>
          if \<not> is_authenticated u then False
          else
            let target_role = target_role_of obj in
            (case hasattr_profile u of
               None \<Rightarrow> False
             | Some p \<Rightarrow>
                 if role p = ''superadmin'' then True
                 else if role p = ''admin'' then target_role = Some ''user''
                 else False))"

section \<open>DRF permission classes of the decorators module (backend/api/decorators/permissions.py)\<close>

definition dec_IsAdminOrAbove_has_permission :: "user option \<Rightarrow> bool" where
  "dec_IsAdminOrAbove_has_permission request_user =
     (case request_user of
        None \<Rightarrow> False
      | Some u \<Rightarrow>
          if \<not> is_authenticated u then False
          else (case hasattr_profile u of
                  None \<Rightarrow> False
                | Some p \<Rightarrow> is_admin_or_above p))"

section \<open>Role threshold middleware (backend/api/middleware/role_auth_middleware.py)\<close>

definition role_hierarchy :: "(string \<times> nat) list" where
  "role_hierarchy = [(''superadmin'', 3), (''admin'', 2), (''user'', 1)]"

text \<open>\<open>role_hierarchy.get(k, 0)\<close>; the key may be \<open>None\<close>, which is never in the dict.\<close>

definition role_hierarchy_get :: "string option \<Rightarrow> nat" where
  "role_hierarchy_get k =
     (case k of
        None \<Rightarrow> 0
      | Some r \<Rightarrow> (case map_of role_hierarchy r of None \<Rightarrow> 0 | Some level \<Rightarrow> level))"

definition str_of :: "string option \<Rightarrow> string" where
  "str_of v = (case v of None \<Rightarrow> ''None'' | Some s \<Rightarrow> s)"

text \<open>
  \<open>process_view\<close>: \<open>required_role\<close> is \<open>getattr(view_func, 'required_role', None)\<close>;
  \<open>if required_role:\<close> holds for a non-empty string.
\<close>

definition RoleAuth_process_view :: "request \<Rightarrow> string option \<Rightarrow> response option" where
  "RoleAuth_process_view request required_role =
     (case required_role of
        None \<Rightarrow> None
      | Some rr \<Rightarrow>
          if rr = [] then None
          else if \<not> is_authenticated (req_user request) then
            Some (JsonResponse
                    [(''error'', ''Authentication required''),
                     (''detail'', ''You must be logged in to access this resource'')] 401)
          else
            let user_role = req_user_role request;
                required_level = role_hierarchy_get (Some rr);
                user_level = role_hierarchy_get user_role
            in if user_level < required_level then
                 Some (JsonResponse
                         [(''error'', ''Insufficient permissions''),
                          (''detail'', ''This resource requires '' @ rr @ '' role. Your role: '' @
                                      str_of user_role)] 403)
               else None)"

section \<open>Tenant middleware (backend/api/middleware/tenant_middleware.py)\<close>

subsection \<open>Python strings and lists\<close>

definition startswith :: "string \<Rightarrow> string \<Rightarrow> bool" where
  "startswith s p = (take (length p) s = p)"

text \<open>\<open>s.split(sep)\<close> for a one-character separator: \<open>''.split('/')\<close> is \<open>['']\<close>.\<close>

fun split :: "char \<Rightarrow> string \<Rightarrow> string list" where
  "split sep [] = [[]]"
| "split sep (c # cs) =
     (if c = sep then [] # split sep cs
      else (case split sep cs of
              [] \<Rightarrow> [[c]]
            | w # ws \<Rightarrow> (c # w) # ws))"

text \<open>\<open>xs.index(x)\<close>: the first position of \<open>x\<close>; \<open>None\<close> stands for the ValueError.\<close>

fun index :: "'a list \<Rightarrow> 'a \<Rightarrow> nat option" where
  "index [] x = None"
| "index (y # ys) x =
     (if y = x then Some 0 else (case index ys x of None \<Rightarrow> None | Some i \<Rightarrow> Some (Suc i)))"

subsection \<open>Django's \<open>objects.get\<close>\<close>

datatype error = DoesNotExist | MultipleObjectsReturned

definition objects_get :: "('a \<Rightarrow> bool) \<Rightarrow> 'a list \<Rightarrow> error + 'a" where
  "objects_get P rows =
     (case filter P rows of
        [] \<Rightarrow> Inl DoesNotExist
      | [x] \<Rightarrow> Inr x
      | _ \<Rightarrow> Inl MultipleObjectsReturned)"

subsection \<open>TenantDetectionMiddleware\<close>

definition skip_paths :: "string list" where
  "skip_paths =
     [''/admin/'', ''/api/auth/'', ''/api/health/'', ''/api/docs/'', ''/api/schema/'',
      ''/static/'', ''/media/'']"

text \<open>
  \<open>process_request\<close> returns the request as it has mutated it, together with its return
  value: \<open>None\<close> lets the request go on to the next middleware and to routing, a response
  ends the request there. \<open>Organization.DoesNotExist\<close> is caught; MultipleObjectsReturned
  is no ValueError or IndexError and propagates. The ValueError of \<open>index\<close> is caught by
  the outer \<open>except\<close>, after which the function returns \<open>None\<close>.
\<close>

definition TenantDetection_process_request ::
    "database \<Rightarrow> request \<Rightarrow> error + (request \<times> response option)" where
  "TenantDetection_process_request db request0 =
     (let request = request0\<lparr>req_tenant := None, req_org_slug := None\<rparr> in
      if list_ex (\<lambda>path. startswith (req_path request) path) skip_paths then Inr (request, None)
      else
        let path_parts = split CHR ''/'' (req_path request) in
        if ''org'' \<in> set path_parts then
          (case index path_parts ''org'' of
             None \<Rightarrow> Inr (request, None)
           | Some org_index \<Rightarrow>
               if length path_parts > org_index + 1 then
                 let org_slug = path_parts ! (org_index + 1) in
                 if org_slug \<noteq> [] then
                   let request = request\<lparr>req_org_slug := Some org_slug\<rparr> in
                   (case objects_get (\<lambda>organization. slug organization = org_slug)
                           (organizations db) of
                      Inr organization \<Rightarrow>
                        Inr (request\<lparr>req_tenant := Some organization\<rparr>, None)
                    | Inl DoesNotExist \<Rightarrow>
                        Inr (request,
                             Some (JsonResponse
                                     [(''error'', ''Organization not found''),
                                      (''detail'', ''Organization with slug \"'' @ org_slug @
                                                  ''\" does not exist''),
                                      (''org_slug'', org_slug)] 404))
                    | Inl MultipleObjectsReturned \<Rightarrow> Inl MultipleObjectsReturned)
                 else Inr (request, None)
               else Inr (request, None))
        else Inr (request, None))"

subsection \<open>TenantIsolationMiddleware\<close>

definition TenantIsolation_process_request :: "request \<Rightarrow> response option" where
  "TenantIsolation_process_request request =
     (if \<not> is_authenticated (req_user request) then None
      else if (case hasattr_profile (req_user request) of
                 Some p \<Rightarrow> is_superadmin p
               | None \<Rightarrow> False) then None
      else
        (case req_tenant request of
           Some tenant \<Rightarrow>
             (case hasattr_profile (req_user request) of
                Some p \<Rightarrow>
                  let user_org = profile_organization p in
                  if \<not> org_eq user_org (Some tenant) then
                    Some (JsonResponse
                            [(''error'', ''Access denied''),
                             (''detail'', ''You do not have access to this organization'')] 403)
                  else None
              | None \<Rightarrow> None)
         | None \<Rightarrow> None))"

subsection \<open>OrganizationContextMiddleware: the helpers attached to the request\<close>

definition has_tenant_access :: "request \<Rightarrow> organization option \<Rightarrow> bool" where
  "has_tenant_access request organization =
     (if \<not> is_authenticated (req_user request) then False
      else if (case hasattr_profile (req_user request) of
                 Some p \<Rightarrow> is_superadmin p
               | None \<Rightarrow> False) then True
      else
        let target_org = (case organization of Some org \<Rightarrow> Some org | None \<Rightarrow> req_tenant request) in
        (case (target_org, hasattr_profile (req_user request)) of
           (Some org, Some p) \<Rightarrow> org_eq (profile_organization p) (Some org)
         | _ \<Rightarrow> False))"

definition get_user_organization :: "request \<Rightarrow> organization option" where
  "get_user_organization request =
     (if is_authenticated (req_user request) then
        (case hasattr_profile (req_user request) of
           Some p \<Rightarrow> profile_organization p
         | None \<Rightarrow> None)
      else None)"

section \<open>Guards of the decorators module (backend/api/decorators/permissions.py)\<close>

text \<open>A view is a function from the request to its response.\<close>

definition require_permission ::
    "database \<Rightarrow> string \<Rightarrow> (request \<Rightarrow> response) \<Rightarrow> request \<Rightarrow> response" where
  "require_permission db permission_name view_func request =
     (if \<not> is_authenticated (req_user request) then
        JsonResponse [(''error'', ''Authentication required'')] 401
      else
        (case hasattr_profile (req_user request) of
           None \<Rightarrow> JsonResponse [(''error'', ''User profile not found'')] 403
         | Some p \<Rightarrow>
             if \<not> has_permission db p permission_name then
               JsonResponse
                 [(''error'', ''Permission denied''),
                  (''detail'', ''You do not have permission: '' @ permission_name)] 403
             else view_func request))"

text \<open>\<open>", ".join(allowed_roles)\<close>\<close>

fun join :: "string \<Rightarrow> string list \<Rightarrow> string" where
  "join sep [] = []"
| "join sep [x] = x"
| "join sep (x # y # ys) = x @ sep @ join sep (y # ys)"

definition require_role ::
    "string list \<Rightarrow> (request \<Rightarrow> response) \<Rightarrow> request \<Rightarrow> response" where
  "require_role allowed_roles view_func request =
     (if \<not> is_authenticated (req_user request) then
        JsonResponse [(''error'', ''Authentication required'')] 401
      else
        (case hasattr_profile (req_user request) of
           None \<Rightarrow> JsonResponse [(''error'', ''User profile not found'')] 403
         | Some p \<Rightarrow>
             let user_role = role p in
             if user_role \<notin> set allowed_roles then
               JsonResponse
                 [(''error'', ''Access denied''),
                  (''detail'', ''Required role: '' @ join '', '' allowed_roles)] 403
             else view_func request))"

definition superadmin_required :: "(request \<Rightarrow> response) \<Rightarrow> request \<Rightarrow> response" where
  "superadmin_required view_func request =
     (if \<not> is_authenticated (req_user request) then
        JsonResponse [(''error'', ''Authentication required'')] 401
      else
        (case hasattr_profile (req_user request) of
           None \<Rightarrow> JsonResponse [(''error'', ''User profile not found'')] 403
         | Some p \<Rightarrow>
             if \<not> is_superadmin p then
               JsonResponse
                 [(''error'', ''Access denied''), (''detail'', ''Superadmin access required'')] 403
             else view_func request))"

definition admin_required :: "(request \<Rightarrow> response) \<Rightarrow> request \<Rightarrow> response" where
  "admin_required view_func request =
     (if \<not> is_authenticated (req_user request) then
        JsonResponse [(''error'', ''Authentication required'')] 401
      else
        (case hasattr_profile (req_user request) of
           None \<Rightarrow> JsonResponse [(''error'', ''User profile not found'')] 403
         | Some p \<Rightarrow>
             if \<not> is_admin_or_above p then
               JsonResponse
                 [(''error'', ''Access denied''), (''detail'', ''Admin access required'')] 403
             else view_func request))"

text \<open>
  \<open>BelongsToTenant.has_permission\<close>: \<open>request_user\<close> is \<open>request.user\<close> of the DRF
  request, \<open>tenant\<close> is \<open>request.tenant\<close> (\<open>None\<close> also when the attribute is absent).
\<close>

definition BelongsToTenant_has_permission :: "user option \<Rightarrow> organization option \<Rightarrow> bool" where
  "BelongsToTenant_has_permission request_user tenant =
     (case request_user of
        None \<Rightarrow> False
      | Some u \<Rightarrow>
          if \<not> is_authenticated u then False
          else
            (case hasattr_profile u of
               None \<Rightarrow> False
             | Some p \<Rightarrow>
                 if is_superadmin p then True
                 else (case tenant of
                         None \<Rightarrow> False
                       | Some t \<Rightarrow> org_eq (profile_organization p) (Some t))))"

section \<open>Tenant-scoped query sets (backend/api/managers/tenant_manager.py)\<close>

text \<open>
  A tenant-owned model has a foreign key \<open>organization\<close>; any record type extending
  \<open>tenant_row\<close> is one. A query set is the list of its rows: \<open>self.none()\<close> is the empty
  list, \<open>self.all()\<close> the list itself, and \<open>self.filter(organization=org)\<close> keeps the rows
  whose foreign key is the primary key of \<open>org\<close>.
\<close>

record tenant_row =
  row_id :: nat
  organization_id :: nat

definition for_tenant ::
    "'a tenant_row_scheme list \<Rightarrow> organization option \<Rightarrow> 'a tenant_row_scheme list" where
  "for_tenant self organization =
     (case organization of
        None \<Rightarrow> []
      | Some org \<Rightarrow> filter (\<lambda>row. organization_id row = org_id org) self)"

definition for_user :: "'a tenant_row_scheme list \<Rightarrow> user \<Rightarrow> 'a tenant_row_scheme list" where
  "for_user self u =
     (if \<not> is_authenticated u then []
      else
        (case hasattr_profile u of
           Some p \<Rightarrow>
             (case profile_organization p of
                Some org \<Rightarrow> for_tenant self (Some org)
              | None \<Rightarrow> [])
         | None \<Rightarrow> []))"

definition accessible_by :: "'a tenant_row_scheme list \<Rightarrow> user \<Rightarrow> 'a tenant_row_scheme list" where
  "accessible_by self u =
     (if \<not> is_authenticated u then []
      else if (case hasattr_profile u of Some p \<Rightarrow> is_superadmin p | None \<Rightarrow> False) then self
      else for_user self u)"

section \<open>Seeding (backend/api/management/commands/seed_permissions.py)\<close>

text \<open>Each entry of \<open>permissions_data\<close>: name, category, description.\<close>

definition permissions_data :: "(string \<times> string \<times> string) list" where
  "permissions_data =
     [(''view_users'', ''users'', ''View user list and profiles''),
      (''create_users'', ''users'', ''Create new users''),
      (''edit_users'', ''users'', ''Edit user information''),
      (''delete_users'', ''users'', ''Delete users''),
      (''manage_roles'', ''users'', ''Change user roles and permissions''),
      (''view_dashboard'', ''data'', ''View main dashboard''),
      (''view_analytics'', ''data'', ''View analytics and reports''),
      (''view_reports'', ''data'', ''View detailed reports''),
      (''export_data'', ''data'', ''Export data to CSV/PDF''),
      (''import_data'', ''data'', ''Import data from files''),
      (''create_tasks'', ''data'', ''Create new tasks''),
      (''manage_tasks'', ''data'', ''Manage all tasks''),
      (''view_basic_analytics'', ''analytics'', ''View basic analytics''),
      (''view_advanced_analytics'', ''analytics'', ''View advanced analytics''),
      (''generate_reports'', ''analytics'', ''Generate custom reports''),
      (''view_settings'', ''settings'', ''View application settings''),
      (''edit_settings'', ''settings'', ''Edit application settings''),
      (''manage_billing'', ''settings'', ''Manage billing and subscriptions''),
      (''manage_organizations'', ''system'', ''Manage organizations''),
      (''view_all_data'', ''system'', ''View all organization data''),
      (''manage_system_settings'', ''system'', ''Manage system-wide settings''),
      (''view_audit_logs'', ''system'', ''View audit logs'')]"

text \<open>\<open>role_permissions_map\<close>, in the insertion order \<open>items()\<close> iterates in.\<close>

definition role_permissions_map :: "(string \<times> string list) list" where
  "role_permissions_map =
     [(''superadmin'', []),
      (''admin'', [''view_users'', ''create_users'', ''edit_users'', ''delete_users'', ''manage_roles'', ''view_dashboard'', ''view_analytics'', ''view_reports'', ''export_data'', ''import_data'', ''create_tasks'', ''manage_tasks'', ''view_basic_analytics'', ''view_advanced_analytics'', ''generate_reports'', ''view_settings'', ''edit_settings'', ''manage_billing'', ''view_audit_logs'']),
      (''manager'', [''view_users'', ''create_users'', ''edit_users'', ''view_dashboard'', ''view_analytics'', ''view_reports'', ''export_data'', ''create_tasks'', ''manage_tasks'', ''view_basic_analytics'', ''view_advanced_analytics'', ''generate_reports'', ''view_settings'']),
      (''analyst'', [''view_users'', ''view_dashboard'', ''view_analytics'', ''view_reports'', ''export_data'', ''create_tasks'', ''view_basic_analytics'', ''view_advanced_analytics'', ''generate_reports'', ''view_settings'']),
      (''user'', [''view_dashboard'', ''create_tasks'', ''view_basic_analytics'', ''view_settings'']),
      (''viewer'', [''view_dashboard'', ''view_analytics'', ''view_basic_analytics'']),
      (''volunteer'', [''view_dashboard'', ''create_tasks''])]"

text \<open>The primary key the database gives a new row: one that no row of the table has.\<close>

definition next_pk :: "nat list \<Rightarrow> nat" where
  "next_pk ids = Suc (foldr max ids 0)"

text \<open>
  \<open>Permission.objects.get_or_create(name=..., defaults={...})\<close>: the row with that name
  when there is one, else a new row appended to the table. The result is the database,
  the row and the flag \<open>created\<close>.
\<close>

definition Permission_get_or_create ::
    "database \<Rightarrow> string \<Rightarrow> string \<Rightarrow> string \<Rightarrow> error + (database \<times> permission \<times> bool)" where
  "Permission_get_or_create db nm cat descr =
     (case objects_get (\<lambda>p. perm_name p = nm) (permissions db) of
        Inr perm \<Rightarrow> Inr (db, perm, False)
      | Inl DoesNotExist \<Rightarrow>
          let perm = \<lparr>perm_id = next_pk (map perm_id (permissions db)), perm_name = nm,
                      perm_category = cat, perm_description = descr\<rparr>
          in Inr (db\<lparr>permissions := permissions db @ [perm]\<rparr>, perm, True)
      | Inl MultipleObjectsReturned \<Rightarrow> Inl MultipleObjectsReturned)"

definition RolePermission_get_or_create ::
    "database \<Rightarrow> string \<Rightarrow> permission \<Rightarrow> error + (database \<times> role_permission \<times> bool)" where
  "RolePermission_get_or_create db r perm =
     (case objects_get (\<lambda>rp. rp_role rp = r \<and> rp_permission_id rp = perm_id perm)
             (role_permissions db) of
        Inr role_perm \<Rightarrow> Inr (db, role_perm, False)
      | Inl DoesNotExist \<Rightarrow>
          let role_perm = \<lparr>rp_role = r, rp_permission_id = perm_id perm\<rparr>
          in Inr (db\<lparr>role_permissions := role_permissions db @ [role_perm]\<rparr>, role_perm, True)
      | Inl MultipleObjectsReturned \<Rightarrow> Inl MultipleObjectsReturned)"

text \<open>The loop \<open>for perm_data in permissions_data\<close>, with the counter \<open>created_count\<close>.\<close>

fun create_permissions ::
    "database \<Rightarrow> nat \<Rightarrow> (string \<times> string \<times> string) list \<Rightarrow> error + (database \<times> nat)" where
  "create_permissions db created_count [] = Inr (db, created_count)"
| "create_permissions db created_count ((nm, cat, descr) # rest) =
     (case Permission_get_or_create db nm cat descr of
        Inl e \<Rightarrow> Inl e
      | Inr (db', perm, created) \<Rightarrow>
          create_permissions db' (if created then created_count + 1 else created_count) rest)"

text \<open>
  The inner loop \<open>for perm_name in permission_names\<close>: \<open>Permission.DoesNotExist\<close> is
  caught (a warning is written and the loop goes on); MultipleObjectsReturned is not.
\<close>

fun create_role_mappings ::
    "database \<Rightarrow> nat \<Rightarrow> string \<Rightarrow> string list \<Rightarrow> error + (database \<times> nat)" where
  "create_role_mappings db mapping_count r [] = Inr (db, mapping_count)"
| "create_role_mappings db mapping_count r (pn # rest) =
     (case objects_get (\<lambda>p. perm_name p = pn) (permissions db) of
        Inl DoesNotExist \<Rightarrow> create_role_mappings db mapping_count r rest
      | Inl MultipleObjectsReturned \<Rightarrow> Inl MultipleObjectsReturned
      | Inr perm \<Rightarrow>
          (case RolePermission_get_or_create db r perm of
             Inl e \<Rightarrow> Inl e
           | Inr (db', role_perm, created) \<Rightarrow>
               create_role_mappings db' (if created then mapping_count + 1 else mapping_count)
                 r rest))"

text \<open>The outer loop \<open>for role, permission_names in role_permissions_map.items()\<close>.\<close>

fun create_mappings ::
    "database \<Rightarrow> nat \<Rightarrow> (string \<times> string list) list \<Rightarrow> error + (database \<times> nat)" where
  "create_mappings db mapping_count [] = Inr (db, mapping_count)"
| "create_mappings db mapping_count ((r, permission_names) # rest) =
     (case create_role_mappings db mapping_count r permission_names of
        Inl e \<Rightarrow> Inl e
      | Inr (db', mapping_count') \<Rightarrow> create_mappings db' mapping_count' rest)"

text \<open>
  What a run writes to stdout: \<open>Created n new permissions\<close>, \<open>Total permissions: n\<close>,
  \<open>Created n new role-permission mappings\<close>, \<open>Total mappings: n\<close>.
\<close>

record seed_report =
  created_count :: nat
  total_permissions :: nat
  mapping_count :: nat
  total_mappings :: nat

definition handle :: "database \<Rightarrow> error + (database \<times> seed_report)" where
  "handle db =
     (case create_permissions db 0 permissions_data of
        Inl e \<Rightarrow> Inl e
      | Inr (db1, created) \<Rightarrow>
          (case create_mappings db1 0 role_permissions_map of
             Inl e \<Rightarrow> Inl e
           | Inr (db2, mappings) \<Rightarrow>
               Inr (db2, \<lparr>created_count = created,
                          total_permissions = length (permissions db1),
                          mapping_count = mappings,
                          total_mappings = length (role_permissions db2)\<rparr>)))"

text \<open>
  The constraints the database enforces on the two tables: primary keys and
  \<open>Permission.name\<close> are unique, and so is each pair (role, permission) of RolePermission
  (\<open>unique_together\<close>).
\<close>

definition db_constraints :: "database \<Rightarrow> bool" where
  "db_constraints db \<longleftrightarrow>
     distinct (map perm_id (permissions db)) \<and>
     distinct (map perm_name (permissions db)) \<and>
     distinct (map (\<lambda>rp. (rp_role rp, rp_permission_id rp)) (role_permissions db))"

subsection \<open>The pairs a run asks for\<close>

text \<open>
  The (role, permission) pairs the RolePermission table holds, and those a mapping asks
  for: the pairs of a role with the rows of the Permission table that carry one of the
  listed names.
\<close>

definition role_pairs :: "database \<Rightarrow> (string \<times> nat) set" where
  "role_pairs db = set (map (\<lambda>rp. (rp_role rp, rp_permission_id rp)) (role_permissions db))"

definition wanted_pairs :: "database \<Rightarrow> string \<Rightarrow> string list \<Rightarrow> (string \<times> nat) set" where
  "wanted_pairs db r permission_names =
     set (map (\<lambda>p. (r, perm_id p))
            (filter (\<lambda>p. perm_name p \<in> set permission_names) (permissions db)))"

definition wanted_map_pairs ::
    "database \<Rightarrow> (string \<times> string list) list \<Rightarrow> (string \<times> nat) set" where
  "wanted_map_pairs db m = set (concat (map (\<lambda>(r, pns). map (\<lambda>p. (r, perm_id p))
            (filter (\<lambda>p. perm_name p \<in> set pns) (permissions db))) m))"

section \<open>Example data\<close>

definition acme :: organization where
  "acme = \<lparr>org_id = 1, org_name = ''Acme'', slug = ''acme-corp''\<rparr>"

definition globex :: organization where
  "globex = \<lparr>org_id = 2, org_name = ''Globex'', slug = ''globex''\<rparr>"

definition example_db :: database where
  "example_db =
     \<lparr>permissions =
        [\<lparr>perm_id = 1, perm_name = ''view_dashboard'', perm_category = ''data'',
          perm_description = ''View main dashboard''\<rparr>,
         \<lparr>perm_id = 2, perm_name = ''manage_billing'', perm_category = ''settings'',
          perm_description = ''Manage billing and subscriptions''\<rparr>,
         \<lparr>perm_id = 3, perm_name = ''manage_system_settings'', perm_category = ''system'',
          perm_description = ''Manage system-wide settings''\<rparr>],
      role_permissions = [\<lparr>rp_role = ''manager'', rp_permission_id = 1\<rparr>],
      user_permissions =
        [\<lparr>up_user_profile_id = 7, up_permission_id = 2, up_granted = True\<rparr>,
         \<lparr>up_user_profile_id = 8, up_permission_id = 1, up_granted = False\<rparr>],
      organizations = [acme, globex]\<rparr>"

definition empty_db :: database where
  "empty_db = \<lparr>permissions = [], role_permissions = [], user_permissions = [],
               organizations = []\<rparr>"

definition user_profile_7 :: user_profile where
  "user_profile_7 = \<lparr>profile_id = 7, role = ''user'', profile_organization = Some acme\<rparr>"

definition manager_profile_8 :: user_profile where
  "manager_profile_8 = \<lparr>profile_id = 8, role = ''manager'', profile_organization = Some acme\<rparr>"

definition admin_profile_9 :: user_profile where
  "admin_profile_9 = \<lparr>profile_id = 9, role = ''admin'', profile_organization = Some acme\<rparr>"

definition example_rows :: "tenant_row list" where
  "example_rows =
     [\<lparr>row_id = 1, organization_id = 1\<rparr>, \<lparr>row_id = 2, organization_id = 2\<rparr>,
      \<lparr>row_id = 3, organization_id = 1\<rparr>, \<lparr>row_id = 4, organization_id = 3\<rparr>]"

text \<open>An authenticated user whose profile row is missing, on a request scoped to Globex.\<close>

definition profileless_request :: request where
  "profileless_request =
     \<lparr>req_path = ''/api/org/globex/tasks/'', req_user = User 5 ''mallory'' None,
      req_tenant = Some globex, req_org_slug = Some ''globex'', req_user_role = None\<rparr>"

text \<open>The same user on a request with no organization in its path.\<close>

definition profileless_untenanted_request :: request where
  "profileless_untenanted_request =
     \<lparr>req_path = ''/api/tasks/'', req_user = User 5 ''mallory'' None,
      req_tenant = None, req_org_slug = None, req_user_role = None\<rparr>"

definition example_view :: "request \<Rightarrow> response" where
  "example_view request = JsonResponse [(''ok'', ''true'')] 200"

definition manager_request :: request where
  "manager_request =
     \<lparr>req_path = ''/api/reports/'', req_user = User 8 ''mia'' (Some manager_profile_8),
      req_tenant = None, req_org_slug = None, req_user_role = Some ''manager''\<rparr>"

definition acme_request :: request where
  "acme_request =
     \<lparr>req_path = ''/api/org/acme-corp/users/'', req_user = AnonymousUser,
      req_tenant = None, req_org_slug = None, req_user_role = None\<rparr>"

definition initech_request :: request where
  "initech_request =
     \<lparr>req_path = ''/api/org/initech/users/'', req_user = AnonymousUser,
      req_tenant = None, req_org_slug = None, req_user_role = None\<rparr>"

section \<open>Authorization resolver\<close>

lemma RoleBinding_mem:
  "(r, pn) \<in> RoleBinding db \<longleftrightarrow>
     (\<exists>rp \<in> set (role_permissions db). \<exists>p \<in> set (permissions db).
        rp_role rp = r \<and> perm_id p = rp_permission_id rp \<and> perm_name p = pn)"
  unfolding RoleBinding_def by (force simp: image_iff)

lemma UserPermissionOverride_mem:
  "(u, pn, g) \<in> UserPermissionOverride db \<longleftrightarrow>
     (\<exists>up \<in> set (user_permissions db). \<exists>p \<in> set (permissions db).
        up_user_profile_id up = u \<and> perm_id p = up_permission_id up \<and> perm_name p = pn \<and>
        up_granted up = g)"
  unfolding UserPermissionOverride_def by (force simp: image_iff)

lemma role_has_perm_iff: "role_has_perm db r pn \<longleftrightarrow> (r, pn) \<in> RoleBinding db"
  unfolding RoleBinding_mem by (auto simp: role_has_perm_def list_ex_iff)

lemma user_perm_iff:
  "user_perm db self pn \<longleftrightarrow> (profile_id self, pn, True) \<in> UserPermissionOverride db"
  unfolding UserPermissionOverride_mem by (auto simp: user_perm_def list_ex_iff)

lemma set_role_perms: "set (role_perms db self) = {pn. (role self, pn) \<in> RoleBinding db}"
  unfolding RoleBinding_mem by (auto simp: role_perms_def list_ex_iff image_iff) (metis+)

lemma set_user_perms:
  "set (user_perms db self) = {pn. (profile_id self, pn, True) \<in> UserPermissionOverride db}"
  unfolding UserPermissionOverride_mem
  by (auto simp: user_perms_def list_ex_iff image_iff) (metis+)

text \<open>
  C1. For a profile, \<open>has_permission\<close> is true exactly when the role is superadmin, or the
  pair (role, permission) is in RoleBinding, or a granted override row exists for the
  profile and the permission. \<open>get_permissions\<close> is the whole catalog for a superadmin
  and otherwise the union of the role's bound names and the granted override names.
\<close>

theorem has_permission_resolution:
  "(has_permission db self pn \<longleftrightarrow>
      role self = ''superadmin'' \<or> (role self, pn) \<in> RoleBinding db \<or>
      (profile_id self, pn, True) \<in> UserPermissionOverride db) \<and>
   set (get_permissions db self) =
     (if role self = ''superadmin'' then catalog db
      else {pn. (role self, pn) \<in> RoleBinding db} \<union>
           {pn. (profile_id self, pn, True) \<in> UserPermissionOverride db})"
proof
  show "has_permission db self pn \<longleftrightarrow>
      role self = ''superadmin'' \<or> (role self, pn) \<in> RoleBinding db \<or>
      (profile_id self, pn, True) \<in> UserPermissionOverride db"
    by (simp add: has_permission_def is_superadmin_def role_has_perm_iff user_perm_iff)
next
  show "set (get_permissions db self) =
     (if role self = ''superadmin'' then catalog db
      else {pn. (role self, pn) \<in> RoleBinding db} \<union>
           {pn. (profile_id self, pn, True) \<in> UserPermissionOverride db})"
    by (simp add: get_permissions_def is_superadmin_def catalog_def set_role_perms
        set_user_perms del: set_map)
qed

lemma example_RoleBinding: "RoleBinding example_db = {(''manager'', ''view_dashboard'')}"
  by (simp add: RoleBinding_def example_db_def)

lemma example_UserPermissionOverride:
  "UserPermissionOverride example_db =
     {(7, ''manage_billing'', True), (8, ''view_dashboard'', False)}"
  by (simp add: UserPermissionOverride_def example_db_def)

theorem has_permission_resolution_witness:
  "has_permission example_db user_profile_7 ''manage_billing'' \<and>
   \<not> has_permission example_db user_profile_7 ''view_dashboard'' \<and>
   set (get_permissions example_db user_profile_7) = {''manage_billing''} \<and>
   set (get_permissions example_db manager_profile_8) = {''view_dashboard''}"
  using has_permission_resolution [of example_db user_profile_7 "''manage_billing''"]
    has_permission_resolution [of example_db user_profile_7 "''view_dashboard''"]
    has_permission_resolution [of example_db manager_profile_8 "''view_dashboard''"]
  by (simp add: example_RoleBinding example_UserPermissionOverride user_profile_7_def
      manager_profile_8_def)

text \<open>
  C8. A role that is bound to a permission has it whatever overrides exist: a row with
  \<open>granted=False\<close> neither grants nor revokes. Removing every such row, or adding one
  for the profile, leaves \<open>has_permission\<close> unchanged.
\<close>

theorem denied_override_is_inert:
  "((role self, pn) \<in> RoleBinding db \<longrightarrow> has_permission db self pn) \<and>
   has_permission (db\<lparr>user_permissions := filter up_granted (user_permissions db)\<rparr>) self pn =
     has_permission db self pn \<and>
   has_permission
       (db\<lparr>user_permissions :=
             \<lparr>up_user_profile_id = profile_id self, up_permission_id = pid, up_granted = False\<rparr> #
             user_permissions db\<rparr>) self pn =
     has_permission db self pn"
  by (auto simp: has_permission_def role_has_perm_iff user_perm_def role_has_perm_def list_ex_iff RoleBinding_mem)

theorem denied_override_is_inert_witness:
  "(''manager'', ''view_dashboard'') \<in> RoleBinding example_db \<and>
   (8, ''view_dashboard'', False) \<in> UserPermissionOverride example_db \<and>
   has_permission example_db manager_profile_8 ''view_dashboard''"
  using denied_override_is_inert [of manager_profile_8 "''view_dashboard''" example_db]
  by (simp add: example_RoleBinding example_UserPermissionOverride manager_profile_8_def)

section \<open>The two admin-or-above gates\<close>

text \<open>
  The class of the role_permissions module accepts admin and superadmin; the class of the
  decorators module delegates to \<open>is_admin_or_above\<close>, which also accepts manager. For an
  authenticated user with a profile the two agree on every role but manager.
\<close>

lemma IsAdminOrAbove_gates_agree_iff:
  "rp_IsAdminOrAbove_has_permission (Some (User uid un (Some p))) =
     dec_IsAdminOrAbove_has_permission (Some (User uid un (Some p))) \<longleftrightarrow>
   role p \<noteq> ''manager''"
  by (auto simp: rp_IsAdminOrAbove_has_permission_def dec_IsAdminOrAbove_has_permission_def
      is_admin_or_above_def)

text \<open>
  C10. The two gates named IsAdminOrAbove do not decide the same predicate: for a manager
  the class of the role_permissions module denies and the class of the decorators module
  grants.
\<close>

theorem IsAdminOrAbove_gates_differ_on_manager:
  "rp_IsAdminOrAbove_has_permission (Some (User 8 ''mia'' (Some manager_profile_8))) = False \<and>
   dec_IsAdminOrAbove_has_permission (Some (User 8 ''mia'' (Some manager_profile_8))) = True"
  by (simp add: rp_IsAdminOrAbove_has_permission_def dec_IsAdminOrAbove_has_permission_def
      is_admin_or_above_def manager_profile_8_def)

section \<open>User management hierarchy\<close>

text \<open>
  C5. A superadmin requester manages any target; an admin requester manages a target
  exactly when the target's role is user; every other requester is refused, whether it has
  another role, no profile, or is not authenticated. An admin never manages an admin or a
  superadmin.
\<close>

theorem CanManageUsers_hierarchy:
  "(role p = ''superadmin'' \<longrightarrow>
      CanManageUsers_has_object_permission (Some (User uid un (Some p))) obj) \<and>
   (role p = ''admin'' \<longrightarrow>
      CanManageUsers_has_object_permission (Some (User uid un (Some p))) obj =
        (target_role_of obj = Some ''user'')) \<and>
   (role p \<noteq> ''superadmin'' \<and> role p \<noteq> ''admin'' \<longrightarrow>
      \<not> CanManageUsers_has_object_permission (Some (User uid un (Some p))) obj) \<and>
   (role p = ''admin'' \<and>
    (target_role_of obj = Some ''admin'' \<or> target_role_of obj = Some ''superadmin'') \<longrightarrow>
      \<not> CanManageUsers_has_object_permission (Some (User uid un (Some p))) obj) \<and>
   \<not> CanManageUsers_has_object_permission (Some (User uid un None)) obj \<and>
   \<not> CanManageUsers_has_object_permission (Some AnonymousUser) obj \<and>
   \<not> CanManageUsers_has_object_permission None obj"
  by (auto simp: CanManageUsers_has_object_permission_def)

theorem CanManageUsers_hierarchy_witness:
  "role admin_profile_9 = ''admin'' \<and>
   CanManageUsers_has_object_permission (Some (User 9 ''ann'' (Some admin_profile_9)))
     (UserObject (User 7 ''uma'' (Some user_profile_7))) \<and>
   \<not> CanManageUsers_has_object_permission (Some (User 9 ''ann'' (Some admin_profile_9)))
     (UserObject (User 9 ''ann'' (Some admin_profile_9))) \<and>
   \<not> CanManageUsers_has_object_permission (Some (User 8 ''mia'' (Some manager_profile_8)))
     (ProfileObject user_profile_7)"
  using CanManageUsers_hierarchy [of admin_profile_9 9 "''ann''" "UserObject (User 7 ''uma'' (Some user_profile_7))"]
    CanManageUsers_hierarchy [of admin_profile_9 9 "''ann''" "UserObject (User 9 ''ann'' (Some admin_profile_9))"]
    CanManageUsers_hierarchy [of manager_profile_8 8 "''mia''" "ProfileObject user_profile_7"]
  by (simp add: admin_profile_9_def user_profile_7_def manager_profile_8_def)

section \<open>Role threshold\<close>

lemma role_hierarchy_get_values:
  "role_hierarchy_get (Some ''superadmin'') = 3"
  "role_hierarchy_get (Some ''admin'') = 2"
  "role_hierarchy_get (Some ''user'') = 1"
  "role_hierarchy_get None = 0"
  by (simp_all add: role_hierarchy_get_def role_hierarchy_def)

lemma role_hierarchy_get_unlisted:
  "r \<noteq> ''superadmin'' \<Longrightarrow> r \<noteq> ''admin'' \<Longrightarrow> r \<noteq> ''user'' \<Longrightarrow> role_hierarchy_get (Some r) = 0"
  by (simp add: role_hierarchy_get_def role_hierarchy_def)

text \<open>
  C7. The weights are superadmin 3, admin 2, user 1 and 0 for every other role (and for
  no role). For a view with a required role, an unauthenticated request gets 401; an
  authenticated one gets 403 exactly when the weight of its role is below the weight of
  the required role, and passes otherwise.
\<close>

theorem role_threshold:
  "role_hierarchy_get (Some ''superadmin'') = 3 \<and>
   role_hierarchy_get (Some ''admin'') = 2 \<and>
   role_hierarchy_get (Some ''user'') = 1 \<and>
   role_hierarchy_get None = 0 \<and>
   (r \<notin> {''superadmin'', ''admin'', ''user''} \<longrightarrow> role_hierarchy_get (Some r) = 0) \<and>
   (required_role \<noteq> [] \<longrightarrow>
      (\<not> is_authenticated (req_user request) \<longrightarrow>
         map_option status (RoleAuth_process_view request (Some required_role)) = Some 401) \<and>
      (is_authenticated (req_user request) \<longrightarrow>
         (map_option status (RoleAuth_process_view request (Some required_role)) = Some 403 \<longleftrightarrow>
            role_hierarchy_get (req_user_role request) < role_hierarchy_get (Some required_role)) \<and>
         (RoleAuth_process_view request (Some required_role) = None \<longleftrightarrow>
            \<not> role_hierarchy_get (req_user_role request) < role_hierarchy_get (Some required_role))))"
  by (simp add: role_hierarchy_get_values role_hierarchy_get_unlisted RoleAuth_process_view_def
      Let_def)

theorem role_threshold_witness:
  "role_hierarchy_get (Some ''manager'') = 0 \<and>
   map_option status (RoleAuth_process_view manager_request (Some ''user'')) = Some 403 \<and>
   map_option status
     (RoleAuth_process_view (manager_request\<lparr>req_user := AnonymousUser\<rparr>) (Some ''user'')) =
     Some 401 \<and>
   RoleAuth_process_view (manager_request\<lparr>req_user_role := Some ''admin''\<rparr>) (Some ''user'') = None"
  using role_threshold [of "''manager''" "''user''" manager_request]
    role_threshold [of "''manager''" "''user''" "manager_request\<lparr>req_user := AnonymousUser\<rparr>"]
    role_threshold [of "''manager''" "''user''" "manager_request\<lparr>req_user_role := Some ''admin''\<rparr>"]
  by (simp add: manager_request_def)

section \<open>Tenant-scoped queries\<close>

lemma for_tenant_Some:
  "for_tenant qs (Some org) = filter (\<lambda>row. organization_id row = org_id org) qs"
  by (simp add: for_tenant_def)

text \<open>
  C2. \<open>for_tenant\<close> of no organization is empty. \<open>for_user\<close> is empty for the anonymous
  user, for a user without profile and for a profile without organization, and is
  otherwise exactly the rows of the profile's organization. \<open>accessible_by\<close> is every row
  for a superadmin and the result of \<open>for_user\<close> for everyone else. So no helper gives a
  user who is not superadmin a row of an organization other than the one of its profile.
\<close>

theorem tenant_scoping:
  "for_tenant qs None = [] \<and>
   for_user qs AnonymousUser = [] \<and>
   for_user qs (User uid un None) = [] \<and>
   (profile_organization p = None \<longrightarrow> for_user qs (User uid un (Some p)) = []) \<and>
   (profile_organization p = Some org \<longrightarrow>
      for_user qs (User uid un (Some p)) = filter (\<lambda>row. organization_id row = org_id org) qs \<and>
      for_user qs (User uid un (Some p)) = for_tenant qs (profile_organization p)) \<and>
   (role p = ''superadmin'' \<longrightarrow> accessible_by qs (User uid un (Some p)) = qs) \<and>
   (role p \<noteq> ''superadmin'' \<longrightarrow>
      accessible_by qs (User uid un (Some p)) = for_user qs (User uid un (Some p))) \<and>
   accessible_by qs (User uid un None) = for_user qs (User uid un None) \<and>
   accessible_by qs AnonymousUser = for_user qs AnonymousUser \<and>
   (role p \<noteq> ''superadmin'' \<longrightarrow>
      (\<forall>row \<in> set (for_user qs (User uid un (Some p))) \<union>
                set (accessible_by qs (User uid un (Some p))) \<union>
                set (for_tenant qs (profile_organization p)).
         \<exists>org'. profile_organization p = Some org' \<and> organization_id row = org_id org'))"
  by (cases "profile_organization p")
    (auto simp: for_tenant_def for_user_def accessible_by_def is_superadmin_def)

theorem tenant_scoping_witness:
  "for_user example_rows (User 7 ''uma'' (Some user_profile_7)) =
     [\<lparr>row_id = 1, organization_id = 1\<rparr>, \<lparr>row_id = 3, organization_id = 1\<rparr>] \<and>
   accessible_by example_rows (User 7 ''uma'' (Some user_profile_7)) =
     [\<lparr>row_id = 1, organization_id = 1\<rparr>, \<lparr>row_id = 3, organization_id = 1\<rparr>]"
  using tenant_scoping [of example_rows 7 "''uma''" user_profile_7 acme]
  by (simp add: user_profile_7_def acme_def example_rows_def)

section \<open>Tenant isolation guard\<close>

text \<open>
  For a user with a profile the guard does what its docstring says: a superadmin passes,
  and with a tenant attached anyone else passes exactly when the organization of the
  profile is the tenant. Unauthenticated requests and requests without tenant pass.
\<close>

lemma TenantIsolation_with_profile:
  "req_user request = User uid un (Some p) \<Longrightarrow>
   TenantIsolation_process_request request =
     (if role p \<noteq> ''superadmin'' \<and>
         (\<exists>t. req_tenant request = Some t \<and> \<not> org_eq (profile_organization p) (Some t))
      then Some (JsonResponse
                   [(''error'', ''Access denied''),
                    (''detail'', ''You do not have access to this organization'')] 403)
      else None)"
  by (auto simp: TenantIsolation_process_request_def is_superadmin_def split: option.splits)

lemma TenantIsolation_unauthenticated:
  "req_user request = AnonymousUser \<Longrightarrow> TenantIsolation_process_request request = None"
  by (simp add: TenantIsolation_process_request_def)

lemma TenantIsolation_no_tenant:
  "req_tenant request = None \<Longrightarrow> TenantIsolation_process_request request = None"
  by (simp add: TenantIsolation_process_request_def)

text \<open>
  C3. An authenticated user whose profile row is missing is not a superadmin and has no
  organization (\<open>get_user_organization\<close> is \<open>None\<close>), so its organization is not the
  attached tenant; yet the guard lets the request pass. The helpers \<open>has_tenant_access\<close>
  and \<open>BelongsToTenant\<close> refuse the same request.
\<close>

theorem TenantIsolation_passes_profileless_user:
  "is_authenticated (req_user profileless_request) \<and>
   req_tenant profileless_request = Some globex \<and>
   get_user_organization profileless_request = None \<and>
   \<not> org_eq (get_user_organization profileless_request) (req_tenant profileless_request) \<and>
   TenantIsolation_process_request profileless_request = None \<and>
   has_tenant_access profileless_request None = False \<and>
   BelongsToTenant_has_permission (Some (req_user profileless_request))
     (req_tenant profileless_request) = False"
  by (simp add: profileless_request_def TenantIsolation_process_request_def
      get_user_organization_def has_tenant_access_def BelongsToTenant_has_permission_def)

section \<open>Guards and the missing profile\<close>

text \<open>
  C4, as the claim states it: every guard answers 403 when the profile is missing. The
  tenant isolation guard does not: a request with no tenant attached passes it.
\<close>

theorem TenantIsolation_untenanted_profileless_passes:
  "is_authenticated (req_user profileless_untenanted_request) \<and>
   hasattr_profile (req_user profileless_untenanted_request) = None \<and>
   TenantIsolation_process_request profileless_untenanted_request = None"
  by (simp add: profileless_untenanted_request_def TenantIsolation_process_request_def)

text \<open>
  C4, amended. For an authenticated user whose profile is missing, the permission guard,
  the role guard, the superadmin guard and the admin guard answer 403 "User profile not
  found" and never run the view. The tenant isolation guard checks a request only when a
  tenant is attached: with none attached it lets the request pass.
\<close>

theorem missing_profile_guards:
  "is_authenticated (req_user request) \<Longrightarrow> hasattr_profile (req_user request) = None \<Longrightarrow>
   require_permission db pn view_func request =
     JsonResponse [(''error'', ''User profile not found'')] 403 \<and>
   require_role allowed_roles view_func request =
     JsonResponse [(''error'', ''User profile not found'')] 403 \<and>
   superadmin_required view_func request =
     JsonResponse [(''error'', ''User profile not found'')] 403 \<and>
   admin_required view_func request =
     JsonResponse [(''error'', ''User profile not found'')] 403 \<and>
   (req_tenant request = None \<longrightarrow> TenantIsolation_process_request request = None)"
  by (simp add: require_permission_def require_role_def superadmin_required_def
      admin_required_def TenantIsolation_process_request_def)

theorem missing_profile_guards_witness:
  "is_authenticated (req_user profileless_untenanted_request) \<and>
   hasattr_profile (req_user profileless_untenanted_request) = None \<and>
   status (require_permission example_db ''view_dashboard'' example_view
             profileless_untenanted_request) = 403 \<and>
   status (require_role [''user''] example_view profileless_untenanted_request) = 403 \<and>
   status (superadmin_required example_view profileless_untenanted_request) = 403 \<and>
   status (admin_required example_view profileless_untenanted_request) = 403 \<and>
   req_tenant profileless_untenanted_request = None \<and>
   TenantIsolation_process_request profileless_untenanted_request = None"
proof -
  have a: "is_authenticated (req_user profileless_untenanted_request)"
    by (simp add: profileless_untenanted_request_def)
  have b: "hasattr_profile (req_user profileless_untenanted_request) = None"
    by (simp add: profileless_untenanted_request_def)
  have c: "req_tenant profileless_untenanted_request = None"
    by (simp add: profileless_untenanted_request_def)
  show ?thesis
    using a b c missing_profile_guards [OF a b, of example_db "''view_dashboard''" example_view "[''user'']"]
    by simp
qed

section \<open>Lookups under a uniqueness constraint\<close>

lemma filter_key_absent: "v \<notin> f ` set xs \<Longrightarrow> filter (\<lambda>y. f y = v) xs = []"
  by (induction xs) auto

lemma filter_key_distinct:
  "distinct (map f xs) \<Longrightarrow> x \<in> set xs \<Longrightarrow> filter (\<lambda>y. f y = f x) xs = [x]"
proof (induction xs)
  case Nil
  then show ?case by simp
next
  case (Cons a xs)
  show ?case
  proof (cases "a = x")
    case True
    with Cons.prems have "f x \<notin> f ` set xs" by simp
    then have "filter (\<lambda>y. f y = f x) xs = []" by (rule filter_key_absent)
    with True show ?thesis by simp
  next
    case False
    with Cons.prems have "x \<in> set xs" "f a \<noteq> f x" by auto
    with Cons show ?thesis by simp
  qed
qed

lemma objects_get_missing:
  "v \<notin> f ` set xs \<Longrightarrow> objects_get (\<lambda>y. f y = v) xs = Inl DoesNotExist"
  by (simp add: objects_get_def filter_key_absent)

lemma objects_get_found:
  "distinct (map f xs) \<Longrightarrow> x \<in> set xs \<Longrightarrow> f x = v \<Longrightarrow> objects_get (\<lambda>y. f y = v) xs = Inr x"
  using filter_key_distinct [of f xs x] by (auto simp: objects_get_def)

lemma objects_get_cases:
  assumes "distinct (map f xs)"
  shows "(v \<notin> f ` set xs \<and> objects_get (\<lambda>y. f y = v) xs = Inl DoesNotExist) \<or>
         (\<exists>x \<in> set xs. f x = v \<and> objects_get (\<lambda>y. f y = v) xs = Inr x)"
proof (cases "v \<in> f ` set xs")
  case True
  then obtain x where "x \<in> set xs" "f x = v" by auto
  with assms show ?thesis by (auto simp: objects_get_found)
next
  case False
  then show ?thesis by (simp add: objects_get_missing)
qed

section \<open>Tenant detection\<close>

lemma index_first: "x \<notin> set pre \<Longrightarrow> index (pre @ x # rest) x = Some (length pre)"
  by (induction pre) auto

lemma index_None_iff: "index xs x = None \<longleftrightarrow> x \<notin> set xs"
  by (induction xs) (auto split: option.splits)

lemma startswith_skip_paths:
  "list_ex (\<lambda>path. startswith s path) skip_paths \<longleftrightarrow> (\<exists>p \<in> set skip_paths. startswith s p)"
  by (simp add: list_ex_iff)

text \<open>
  C6. For a path that starts with no allowlisted prefix, and slugs unique as the database
  keeps them: with no segment \<open>org\<close> the tenant is \<open>None\<close> and the request proceeds; with
  a first segment \<open>org\<close> followed by a non-empty slug, the request ends with the 404
  response "Organization not found" when no organization has that slug, and proceeds with
  that organization attached when one has. Whatever the path, the result is one of these
  three outcomes.
\<close>

theorem tenant_detection_outcomes:
  assumes skip: "\<not> list_ex (\<lambda>path. startswith (req_path request) path) skip_paths"
      and uniq: "distinct (map slug (organizations db))"
  shows
   "(''org'' \<notin> set (split CHR ''/'' (req_path request)) \<longrightarrow>
       TenantDetection_process_request db request =
         Inr (request\<lparr>req_tenant := None, req_org_slug := None\<rparr>, None)) \<and>
    (split CHR ''/'' (req_path request) = pre @ ''org'' # s # post \<and> ''org'' \<notin> set pre \<and> s \<noteq> [] \<longrightarrow>
       (s \<notin> slug ` set (organizations db) \<longrightarrow>
          TenantDetection_process_request db request =
            Inr (request\<lparr>req_tenant := None, req_org_slug := Some s\<rparr>,
                 Some (JsonResponse
                         [(''error'', ''Organization not found''),
                          (''detail'', ''Organization with slug \"'' @ s @ ''\" does not exist''),
                          (''org_slug'', s)] 404))) \<and>
       (\<forall>organization \<in> set (organizations db). slug organization = s \<longrightarrow>
          TenantDetection_process_request db request =
            Inr (request\<lparr>req_tenant := Some organization, req_org_slug := Some s\<rparr>, None))) \<and>
    (\<exists>request' outcome. TenantDetection_process_request db request = Inr (request', outcome) \<and>
       ((req_tenant request' = None \<and> outcome = None) \<or>
        (req_tenant request' = None \<and>
           (\<exists>r. outcome = Some r \<and> status r = 404 \<and>
                map_of (body r) ''error'' = Some ''Organization not found'')) \<or>
        (\<exists>organization \<in> set (organizations db).
           req_tenant request' = Some organization \<and> outcome = None)))"
proof (intro conjI impI)
  assume "''org'' \<notin> set (split CHR ''/'' (req_path request))"
  with skip show "TenantDetection_process_request db request =
         Inr (request\<lparr>req_tenant := None, req_org_slug := None\<rparr>, None)"
    by (simp add: TenantDetection_process_request_def Let_def)
next
  assume a: "split CHR ''/'' (req_path request) = pre @ ''org'' # s # post \<and>
             ''org'' \<notin> set pre \<and> s \<noteq> []"
  assume "s \<notin> slug ` set (organizations db)"
  then have "objects_get (\<lambda>organization. slug organization = s) (organizations db) =
               Inl DoesNotExist"
    by (rule objects_get_missing)
  with skip a show "TenantDetection_process_request db request =
            Inr (request\<lparr>req_tenant := None, req_org_slug := Some s\<rparr>,
                 Some (JsonResponse
                         [(''error'', ''Organization not found''),
                          (''detail'', ''Organization with slug \"'' @ s @ ''\" does not exist''),
                          (''org_slug'', s)] 404))"
    by (simp add: TenantDetection_process_request_def Let_def index_first nth_append)
next
  assume a: "split CHR ''/'' (req_path request) = pre @ ''org'' # s # post \<and>
             ''org'' \<notin> set pre \<and> s \<noteq> []"
  show "\<forall>organization \<in> set (organizations db). slug organization = s \<longrightarrow>
          TenantDetection_process_request db request =
            Inr (request\<lparr>req_tenant := Some organization, req_org_slug := Some s\<rparr>, None)"
  proof (intro ballI impI)
    fix organization
    assume "organization \<in> set (organizations db)" "slug organization = s"
    with uniq have "objects_get (\<lambda>organization. slug organization = s) (organizations db) =
                      Inr organization"
      by (simp add: objects_get_found)
    with skip a show "TenantDetection_process_request db request =
            Inr (request\<lparr>req_tenant := Some organization, req_org_slug := Some s\<rparr>, None)"
      by (simp add: TenantDetection_process_request_def Let_def index_first nth_append)
  qed
next
  let ?parts = "split CHR ''/'' (req_path request)"
  show "\<exists>request' outcome. TenantDetection_process_request db request = Inr (request', outcome) \<and>
       ((req_tenant request' = None \<and> outcome = None) \<or>
        (req_tenant request' = None \<and>
           (\<exists>r. outcome = Some r \<and> status r = 404 \<and>
                map_of (body r) ''error'' = Some ''Organization not found'')) \<or>
        (\<exists>organization \<in> set (organizations db).
           req_tenant request' = Some organization \<and> outcome = None))"
  proof (cases "index ?parts ''org''")
    case None
    with skip show ?thesis
      by (simp add: TenantDetection_process_request_def Let_def index_None_iff)
  next
    case (Some i)
    then have mem: "''org'' \<in> set ?parts"
      using index_None_iff [of ?parts "''org''"] by simp
    show ?thesis
    proof (cases "Suc i < length ?parts \<and> ?parts ! Suc i \<noteq> []")
      case False
      with skip Some mem show ?thesis
        by (auto simp: TenantDetection_process_request_def Let_def)
    next
      case True
      from objects_get_cases [OF uniq, of "?parts ! Suc i"]
      show ?thesis
      proof
        assume "?parts ! Suc i \<notin> slug ` set (organizations db) \<and>
                objects_get (\<lambda>y. slug y = ?parts ! Suc i) (organizations db) = Inl DoesNotExist"
        with skip Some mem True show ?thesis
          by (simp add: TenantDetection_process_request_def Let_def)
      next
        assume "\<exists>x \<in> set (organizations db). slug x = ?parts ! Suc i \<and>
                objects_get (\<lambda>y. slug y = ?parts ! Suc i) (organizations db) = Inr x"
        then obtain x where "x \<in> set (organizations db)"
          "objects_get (\<lambda>y. slug y = ?parts ! Suc i) (organizations db) = Inr x" by blast
        with skip Some mem True show ?thesis
          by (simp add: TenantDetection_process_request_def Let_def)
      qed
    qed
  qed
qed

theorem tenant_detection_outcomes_witness:
  "TenantDetection_process_request example_db acme_request =
     Inr (acme_request\<lparr>req_tenant := Some acme, req_org_slug := Some ''acme-corp''\<rparr>, None) \<and>
   TenantDetection_process_request example_db initech_request =
     Inr (initech_request\<lparr>req_tenant := None, req_org_slug := Some ''initech''\<rparr>,
          Some (JsonResponse
                  [(''error'', ''Organization not found''),
                   (''detail'', ''Organization with slug \"initech\" does not exist''),
                   (''org_slug'', ''initech'')] 404))"
proof
  have skip: "\<not> list_ex (\<lambda>path. startswith (req_path acme_request) path) skip_paths"
    by (simp add: acme_request_def skip_paths_def startswith_def)
  have uniq: "distinct (map slug (organizations example_db))"
    by (simp add: example_db_def acme_def globex_def)
  have parts: "split CHR ''/'' (req_path acme_request) =
                 [[], ''api''] @ ''org'' # ''acme-corp'' # [''users'', []]"
    by (simp add: acme_request_def)
  have org: "acme \<in> set (organizations example_db)" "slug acme = ''acme-corp''"
    by (simp_all add: example_db_def acme_def)
  from tenant_detection_outcomes [OF skip uniq, of "[[], ''api'']" "''acme-corp''" "[''users'', []]"]
    parts org
  show "TenantDetection_process_request example_db acme_request =
     Inr (acme_request\<lparr>req_tenant := Some acme, req_org_slug := Some ''acme-corp''\<rparr>, None)"
    by simp
next
  have skip: "\<not> list_ex (\<lambda>path. startswith (req_path initech_request) path) skip_paths"
    by (simp add: initech_request_def skip_paths_def startswith_def)
  have uniq: "distinct (map slug (organizations example_db))"
    by (simp add: example_db_def acme_def globex_def)
  have parts: "split CHR ''/'' (req_path initech_request) =
                 [[], ''api''] @ ''org'' # ''initech'' # [''users'', []]"
    by (simp add: initech_request_def)
  have org: "''initech'' \<notin> slug ` set (organizations example_db)"
    by (simp add: example_db_def acme_def globex_def)
  from tenant_detection_outcomes [OF skip uniq, of "[[], ''api'']" "''initech''" "[''users'', []]"]
    parts org
  show "TenantDetection_process_request example_db initech_request =
     Inr (initech_request\<lparr>req_tenant := None, req_org_slug := Some ''initech''\<rparr>,
          Some (JsonResponse
                  [(''error'', ''Organization not found''),
                   (''detail'', ''Organization with slug \"initech\" does not exist''),
                   (''org_slug'', ''initech'')] 404))"
    by simp
qed

section \<open>Seeding\<close>

lemma foldr_max_upper: "x \<in> set ids \<Longrightarrow> x \<le> foldr max ids (0::nat)"
  by (induction ids) auto

lemma next_pk_fresh: "next_pk ids \<notin> set ids"
proof
  assume "next_pk ids \<in> set ids"
  then have "next_pk ids \<le> foldr max ids 0" by (rule foldr_max_upper)
  then show False by (simp add: next_pk_def)
qed

lemma Permission_get_or_create_present:
  assumes "db_constraints db" "nm \<in> catalog db"
  shows "\<exists>perm. Permission_get_or_create db nm cat descr = Inr (db, perm, False)"
proof -
  from assms have "distinct (map perm_name (permissions db))" "nm \<in> perm_name ` set (permissions db)"
    by (simp_all add: db_constraints_def catalog_def)
  with objects_get_cases [of perm_name "permissions db" nm]
  obtain p where "objects_get (\<lambda>y. perm_name y = nm) (permissions db) = Inr p" by auto
  then show ?thesis by (simp add: Permission_get_or_create_def)
qed

lemma Permission_get_or_create_absent:
  assumes "db_constraints db" "nm \<notin> catalog db"
  shows "\<exists>db' perm. Permission_get_or_create db nm cat descr = Inr (db', perm, True) \<and>
           db_constraints db' \<and> role_permissions db' = role_permissions db \<and>
           catalog db' = insert nm (catalog db) \<and>
           length (permissions db') = Suc (length (permissions db))"
proof -
  let ?perm = "\<lparr>perm_id = next_pk (map perm_id (permissions db)), perm_name = nm,
                perm_category = cat, perm_description = descr\<rparr>"
  let ?db' = "db\<lparr>permissions := permissions db @ [?perm]\<rparr>"
  from assms(2) have "objects_get (\<lambda>y. perm_name y = nm) (permissions db) = Inl DoesNotExist"
    by (simp add: objects_get_missing catalog_def)
  then have "Permission_get_or_create db nm cat descr = Inr (?db', ?perm, True)"
    by (simp add: Permission_get_or_create_def Let_def)
  moreover have "db_constraints ?db'"
    using assms next_pk_fresh [of "map perm_id (permissions db)"]
    by (simp add: db_constraints_def catalog_def)
  moreover have "catalog ?db' = insert nm (catalog db)"
    by (simp add: catalog_def)
  ultimately show ?thesis by simp
qed

lemma create_permissions_runs:
  "db_constraints db \<Longrightarrow>
   \<exists>db' n. create_permissions db c xs = Inr (db', c + n) \<and> db_constraints db' \<and>
     role_permissions db' = role_permissions db \<and>
     catalog db' = catalog db \<union> fst ` set xs \<and>
     length (permissions db') = length (permissions db) + n"
proof (induction xs arbitrary: db c)
  case Nil
  then show ?case by simp
next
  case (Cons x xs)
  obtain nm cat descr where x: "x = (nm, cat, descr)" by (cases x) auto
  show ?case
  proof (cases "nm \<in> catalog db")
    case True
    with Cons.prems obtain perm where
      step: "Permission_get_or_create db nm cat descr = Inr (db, perm, False)"
      using Permission_get_or_create_present by blast
    from Cons.IH [OF Cons.prems, of c] obtain db' n where
      "create_permissions db c xs = Inr (db', c + n)" "db_constraints db'"
      "role_permissions db' = role_permissions db" "catalog db' = catalog db \<union> fst ` set xs"
      "length (permissions db') = length (permissions db) + n" by blast
    with step x True show ?thesis by auto
  next
    case False
    with Cons.prems obtain db1 perm where
      step: "Permission_get_or_create db nm cat descr = Inr (db1, perm, True)"
      and db1: "db_constraints db1" "role_permissions db1 = role_permissions db"
        "catalog db1 = insert nm (catalog db)"
        "length (permissions db1) = Suc (length (permissions db))"
      using Permission_get_or_create_absent by blast
    from Cons.IH [OF db1(1), of "c + 1"] obtain db' n where
      "create_permissions db1 (c + 1) xs = Inr (db', c + 1 + n)" "db_constraints db'"
      "role_permissions db' = role_permissions db1" "catalog db' = catalog db1 \<union> fst ` set xs"
      "length (permissions db') = length (permissions db1) + n" by blast
    with step x db1 have
      "create_permissions db c (x # xs) = Inr (db', c + Suc n) \<and> db_constraints db' \<and>
       role_permissions db' = role_permissions db \<and>
       catalog db' = catalog db \<union> fst ` set (x # xs) \<and>
       length (permissions db') = length (permissions db) + Suc n"
      by auto
    then show ?thesis by blast
  qed
qed

lemma create_permissions_noop:
  "db_constraints db \<Longrightarrow> fst ` set xs \<subseteq> catalog db \<Longrightarrow> create_permissions db c xs = Inr (db, c)"
proof (induction xs)
  case Nil
  then show ?case by simp
next
  case (Cons x xs)
  obtain nm cat descr where x: "x = (nm, cat, descr)" by (cases x) auto
  with Cons.prems obtain perm where
    "Permission_get_or_create db nm cat descr = Inr (db, perm, False)"
    using Permission_get_or_create_present [of db nm cat descr] by auto
  with Cons x show ?case by simp
qed

lemma RolePermission_get_or_create_present:
  assumes "db_constraints db" "(r, perm_id perm) \<in> role_pairs db"
  shows "\<exists>role_perm. RolePermission_get_or_create db r perm = Inr (db, role_perm, False)"
proof -
  let ?f = "\<lambda>rp. (rp_role rp, rp_permission_id rp)"
  from assms have "distinct (map ?f (role_permissions db))"
    "(r, perm_id perm) \<in> ?f ` set (role_permissions db)"
    by (simp_all add: db_constraints_def role_pairs_def)
  with objects_get_cases [of ?f "role_permissions db" "(r, perm_id perm)"]
  obtain x where "objects_get (\<lambda>y. ?f y = (r, perm_id perm)) (role_permissions db) = Inr x"
    by auto
  then show ?thesis
    by (simp add: RolePermission_get_or_create_def)
qed

lemma RolePermission_get_or_create_absent:
  assumes "db_constraints db" "(r, perm_id perm) \<notin> role_pairs db"
  shows "\<exists>db' role_perm. RolePermission_get_or_create db r perm = Inr (db', role_perm, True) \<and>
           db_constraints db' \<and> permissions db' = permissions db \<and>
           role_pairs db' = insert (r, perm_id perm) (role_pairs db) \<and>
           length (role_permissions db') = Suc (length (role_permissions db))"
proof -
  let ?f = "\<lambda>rp. (rp_role rp, rp_permission_id rp)"
  let ?rp = "\<lparr>rp_role = r, rp_permission_id = perm_id perm\<rparr>"
  let ?db' = "db\<lparr>role_permissions := role_permissions db @ [?rp]\<rparr>"
  from assms(2) have
    "objects_get (\<lambda>y. ?f y = (r, perm_id perm)) (role_permissions db) = Inl DoesNotExist"
    by (intro objects_get_missing) (simp add: role_pairs_def)
  then have "RolePermission_get_or_create db r perm = Inr (?db', ?rp, True)"
    by (simp add: RolePermission_get_or_create_def Let_def)
  moreover have "db_constraints ?db'"
    using assms by (simp add: db_constraints_def role_pairs_def)
  moreover have "role_pairs ?db' = insert (r, perm_id perm) (role_pairs db)"
    by (simp add: role_pairs_def)
  ultimately show ?thesis by simp
qed

lemma wanted_pairs_Cons:
  "wanted_pairs db r (pn # pns) =
     (\<lambda>p. (r, perm_id p)) ` {p \<in> set (permissions db). perm_name p = pn} \<union> wanted_pairs db r pns"
  by (auto simp: wanted_pairs_def)

lemma wanted_pairs_Nil: "wanted_pairs db r [] = {}"
  by (simp add: wanted_pairs_def)

lemma wanted_pairs_cong:
  "permissions db' = permissions db \<Longrightarrow> wanted_pairs db' r pns = wanted_pairs db r pns"
  by (simp add: wanted_pairs_def)

lemma named_permission_missing:
  "pn \<notin> catalog db \<Longrightarrow> {p \<in> set (permissions db). perm_name p = pn} = {}"
  by (auto simp: catalog_def)

lemma named_permission_found:
  assumes "distinct (map perm_name (permissions db))" "p \<in> set (permissions db)" "perm_name p = pn"
  shows "{q \<in> set (permissions db). perm_name q = pn} = {p}"
proof -
  from assms(1) have "inj_on perm_name (set (permissions db))"
    by (simp add: distinct_map)
  then have "q = p" if "q \<in> set (permissions db)" "perm_name q = pn" for q
    using that assms(2,3) by (simp add: inj_on_def)
  with assms(2,3) show ?thesis by blast
qed

lemma create_role_mappings_runs:
  "db_constraints db \<Longrightarrow>
   \<exists>db' n. create_role_mappings db c r pns = Inr (db', c + n) \<and> db_constraints db' \<and>
     permissions db' = permissions db \<and>
     role_pairs db' = role_pairs db \<union> wanted_pairs db r pns \<and>
     length (role_permissions db') = length (role_permissions db) + n"
proof (induction pns arbitrary: db c)
  case Nil
  then show ?case by (simp add: wanted_pairs_Nil)
next
  case (Cons pn pns)
  from Cons.prems have uniq: "distinct (map perm_name (permissions db))"
    by (simp add: db_constraints_def)
  from objects_get_cases [OF uniq, of pn]
  show ?case
  proof
    assume a: "pn \<notin> perm_name ` set (permissions db) \<and>
               objects_get (\<lambda>y. perm_name y = pn) (permissions db) = Inl DoesNotExist"
    then have "pn \<notin> catalog db" by (simp add: catalog_def)
    then have w: "wanted_pairs db r (pn # pns) = wanted_pairs db r pns"
      by (simp add: wanted_pairs_Cons named_permission_missing)
    from Cons.IH [OF Cons.prems, of c] a w show ?thesis by simp
  next
    assume "\<exists>x \<in> set (permissions db). perm_name x = pn \<and>
              objects_get (\<lambda>y. perm_name y = pn) (permissions db) = Inr x"
    then obtain p where p: "p \<in> set (permissions db)" "perm_name p = pn"
      and get: "objects_get (\<lambda>y. perm_name y = pn) (permissions db) = Inr p" by blast
    have w: "wanted_pairs db r (pn # pns) = insert (r, perm_id p) (wanted_pairs db r pns)"
      using named_permission_found [OF uniq p] by (simp add: wanted_pairs_Cons)
    show ?thesis
    proof (cases "(r, perm_id p) \<in> role_pairs db")
      case True
      with Cons.prems obtain role_perm where
        step: "RolePermission_get_or_create db r p = Inr (db, role_perm, False)"
        using RolePermission_get_or_create_present by blast
      from Cons.IH [OF Cons.prems, of c] obtain db' n where
        "create_role_mappings db c r pns = Inr (db', c + n)" "db_constraints db'"
        "permissions db' = permissions db"
        "role_pairs db' = role_pairs db \<union> wanted_pairs db r pns"
        "length (role_permissions db') = length (role_permissions db) + n" by blast
      with get step w True have
        "create_role_mappings db c r (pn # pns) = Inr (db', c + n) \<and> db_constraints db' \<and>
         permissions db' = permissions db \<and>
         role_pairs db' = role_pairs db \<union> wanted_pairs db r (pn # pns) \<and>
         length (role_permissions db') = length (role_permissions db) + n"
        by (simp add: insert_absorb)
      then show ?thesis by blast
    next
      case False
      with Cons.prems obtain db1 role_perm where
        step: "RolePermission_get_or_create db r p = Inr (db1, role_perm, True)"
        and db1: "db_constraints db1" "permissions db1 = permissions db"
          "role_pairs db1 = insert (r, perm_id p) (role_pairs db)"
          "length (role_permissions db1) = Suc (length (role_permissions db))"
        using RolePermission_get_or_create_absent by blast
      from Cons.IH [OF db1(1), of "c + 1"] obtain db' n where
        "create_role_mappings db1 (c + 1) r pns = Inr (db', c + 1 + n)" "db_constraints db'"
        "permissions db' = permissions db1"
        "role_pairs db' = role_pairs db1 \<union> wanted_pairs db1 r pns"
        "length (role_permissions db') = length (role_permissions db1) + n" by blast
      with get step w db1 wanted_pairs_cong [OF db1(2), of r pns] have
        "create_role_mappings db c r (pn # pns) = Inr (db', c + Suc n) \<and> db_constraints db' \<and>
         permissions db' = permissions db \<and>
         role_pairs db' = role_pairs db \<union> wanted_pairs db r (pn # pns) \<and>
         length (role_permissions db') = length (role_permissions db) + Suc n"
        by simp
      then show ?thesis by blast
    qed
  qed
qed

lemma create_role_mappings_noop:
  "db_constraints db \<Longrightarrow> wanted_pairs db r pns \<subseteq> role_pairs db \<Longrightarrow>
   create_role_mappings db c r pns = Inr (db, c)"
proof (induction pns)
  case Nil
  then show ?case by simp
next
  case (Cons pn pns)
  from Cons.prems have uniq: "distinct (map perm_name (permissions db))"
    by (simp add: db_constraints_def)
  from Cons.prems have rest: "wanted_pairs db r pns \<subseteq> role_pairs db"
    by (simp add: wanted_pairs_Cons)
  from objects_get_cases [OF uniq, of pn]
  show ?case
  proof
    assume "pn \<notin> perm_name ` set (permissions db) \<and>
            objects_get (\<lambda>y. perm_name y = pn) (permissions db) = Inl DoesNotExist"
    with Cons.IH [OF Cons.prems(1) rest] show ?thesis by simp
  next
    assume "\<exists>x \<in> set (permissions db). perm_name x = pn \<and>
              objects_get (\<lambda>y. perm_name y = pn) (permissions db) = Inr x"
    then obtain p where p: "p \<in> set (permissions db)" "perm_name p = pn"
      and get: "objects_get (\<lambda>y. perm_name y = pn) (permissions db) = Inr p" by blast
    from Cons.prems(2) have "(r, perm_id p) \<in> role_pairs db"
      using named_permission_found [OF uniq p] by (simp add: wanted_pairs_Cons)
    with Cons.prems(1) obtain role_perm where
      "RolePermission_get_or_create db r p = Inr (db, role_perm, False)"
      using RolePermission_get_or_create_present by blast
    with get Cons.IH [OF Cons.prems(1) rest] show ?thesis by simp
  qed
qed

lemma wanted_map_pairs_Nil: "wanted_map_pairs db [] = {}"
  by (simp add: wanted_map_pairs_def)

lemma wanted_map_pairs_Cons:
  "wanted_map_pairs db ((r, pns) # m) = wanted_pairs db r pns \<union> wanted_map_pairs db m"
  by (simp add: wanted_map_pairs_def wanted_pairs_def)

lemma wanted_map_pairs_cong:
  "permissions db' = permissions db \<Longrightarrow> wanted_map_pairs db' m = wanted_map_pairs db m"
  by (simp add: wanted_map_pairs_def)

lemma create_mappings_runs:
  "db_constraints db \<Longrightarrow>
   \<exists>db' n. create_mappings db c m = Inr (db', c + n) \<and> db_constraints db' \<and>
     permissions db' = permissions db \<and>
     role_pairs db' = role_pairs db \<union> wanted_map_pairs db m \<and>
     length (role_permissions db') = length (role_permissions db) + n"
proof (induction m arbitrary: db c)
  case Nil
  then show ?case by (simp add: wanted_map_pairs_Nil)
next
  case (Cons x m)
  obtain r pns where x: "x = (r, pns)" by (cases x) auto
  from create_role_mappings_runs [OF Cons.prems, of c r pns] obtain db1 k where
    inner: "create_role_mappings db c r pns = Inr (db1, c + k)"
    and db1: "db_constraints db1" "permissions db1 = permissions db"
      "role_pairs db1 = role_pairs db \<union> wanted_pairs db r pns"
      "length (role_permissions db1) = length (role_permissions db) + k" by blast
  from Cons.IH [OF db1(1), of "c + k"] obtain db' n where
    "create_mappings db1 (c + k) m = Inr (db', c + k + n)" "db_constraints db'"
    "permissions db' = permissions db1"
    "role_pairs db' = role_pairs db1 \<union> wanted_map_pairs db1 m"
    "length (role_permissions db') = length (role_permissions db1) + n" by blast
  with inner db1 x wanted_map_pairs_cong [OF db1(2), of m] have
    "create_mappings db c (x # m) = Inr (db', c + (k + n)) \<and> db_constraints db' \<and>
     permissions db' = permissions db \<and>
     role_pairs db' = role_pairs db \<union> wanted_map_pairs db (x # m) \<and>
     length (role_permissions db') = length (role_permissions db) + (k + n)"
    by (simp add: wanted_map_pairs_Cons Un_assoc)
  then show ?case by blast
qed

lemma create_mappings_noop:
  "db_constraints db \<Longrightarrow> wanted_map_pairs db m \<subseteq> role_pairs db \<Longrightarrow>
   create_mappings db c m = Inr (db, c)"
proof (induction m)
  case Nil
  then show ?case by simp
next
  case (Cons x m)
  obtain r pns where x: "x = (r, pns)" by (cases x) auto
  with Cons.prems have "wanted_pairs db r pns \<subseteq> role_pairs db"
    "wanted_map_pairs db m \<subseteq> role_pairs db"
    by (simp_all add: wanted_map_pairs_Cons)
  with Cons x show ?case by (simp add: create_role_mappings_noop)
qed

text \<open>
  C9. On a database that meets its uniqueness constraints a run of the seed command
  succeeds and reports the numbers of Permission and RolePermission rows it has created;
  a second run on the resulting database creates nothing, reports 0 and 0, and leaves the
  database, hence both row counts, as the first run left them.
\<close>

theorem seed_idempotent:
  assumes "db_constraints db"
  shows "\<exists>db1 report.
           handle db = Inr (db1, report) \<and>
           created_count report = length (permissions db1) - length (permissions db) \<and>
           mapping_count report = length (role_permissions db1) - length (role_permissions db) \<and>
           total_permissions report = length (permissions db1) \<and>
           total_mappings report = length (role_permissions db1) \<and>
           handle db1 =
             Inr (db1, \<lparr>created_count = 0, total_permissions = length (permissions db1),
                        mapping_count = 0, total_mappings = length (role_permissions db1)\<rparr>)"
proof -
  from create_permissions_runs [OF assms, of 0 permissions_data] obtain dbp n where
    p: "create_permissions db 0 permissions_data = Inr (dbp, n)"
    and dbp: "db_constraints dbp" "role_permissions dbp = role_permissions db"
      "catalog dbp = catalog db \<union> fst ` set permissions_data"
      "length (permissions dbp) = length (permissions db) + n" by auto
  from create_mappings_runs [OF dbp(1), of 0 role_permissions_map] obtain db1 k where
    m: "create_mappings dbp 0 role_permissions_map = Inr (db1, k)"
    and db1: "db_constraints db1" "permissions db1 = permissions dbp"
      "role_pairs db1 = role_pairs dbp \<union> wanted_map_pairs dbp role_permissions_map"
      "length (role_permissions db1) = length (role_permissions dbp) + k" by auto
  let ?report = "\<lparr>created_count = n, total_permissions = length (permissions dbp),
                   mapping_count = k, total_mappings = length (role_permissions db1)\<rparr>"
  have first: "handle db = Inr (db1, ?report)"
    using p m by (simp add: handle_def)
  have "catalog db1 = catalog dbp"
    using db1(2) by (simp add: catalog_def)
  with dbp(3) have "fst ` set permissions_data \<subseteq> catalog db1" by simp
  with db1(1) have p2: "create_permissions db1 0 permissions_data = Inr (db1, 0)"
    by (rule create_permissions_noop)
  have "wanted_map_pairs db1 role_permissions_map \<subseteq> role_pairs db1"
    using db1(3) wanted_map_pairs_cong [OF db1(2), of role_permissions_map] by simp
  with db1(1) have m2: "create_mappings db1 0 role_permissions_map = Inr (db1, 0)"
    by (rule create_mappings_noop)
  have second: "handle db1 =
             Inr (db1, \<lparr>created_count = 0, total_permissions = length (permissions db1),
                        mapping_count = 0, total_mappings = length (role_permissions db1)\<rparr>)"
    using p2 m2 by (simp add: handle_def)
  from first second dbp(2,4) db1(2,4) show ?thesis by simp
qed

theorem seed_idempotent_witness:
  "db_constraints empty_db \<and>
   (\<exists>db1 report.
      handle empty_db = Inr (db1, report) \<and>
      created_count report = length (permissions db1) \<and>
      mapping_count report = length (role_permissions db1) \<and>
      handle db1 =
        Inr (db1, \<lparr>created_count = 0, total_permissions = length (permissions db1),
                   mapping_count = 0, total_mappings = length (role_permissions db1)\<rparr>))"
proof -
  have c: "db_constraints empty_db"
    by (simp add: db_constraints_def empty_db_def)
  from seed_idempotent [OF c] obtain db1 report where
    "handle empty_db = Inr (db1, report)"
    "created_count report = length (permissions db1) - length (permissions empty_db)"
    "mapping_count report = length (role_permissions db1) - length (role_permissions empty_db)"
    "handle db1 =
        Inr (db1, \<lparr>created_count = 0, total_permissions = length (permissions db1),
                   mapping_count = 0, total_mappings = length (role_permissions db1)\<rparr>)"
    by blast
  then have "handle empty_db = Inr (db1, report) \<and>
      created_count report = length (permissions db1) \<and>
      mapping_count report = length (role_permissions db1) \<and>
      handle db1 =
        Inr (db1, \<lparr>created_count = 0, total_permissions = length (permissions db1),
                   mapping_count = 0, total_mappings = length (role_permissions db1)\<rparr>)"
    by (simp add: empty_db_def)
  with c show ?thesis by blast
qed

end
